theory Spec2Isabelle
  imports Complex_Main
begin

section \<open>Modelling conventions\<close>

text \<open>
  The repository holds two Python scripts, \<^verbatim>\<open>debt_to_gdp.py\<close> and
  \<^verbatim>\<open>decay_calculator.py\<close>. Both are embedded here function by function.

  \<^item> A Python \<^verbatim>\<open>float\<close> is modelled as a \<open>real\<close>: rounding, infinities and NaN are outside
    the model, and every statement about a computed number is a statement about the exact
    result. A Python \<^verbatim>\<open>int\<close> is an \<open>int\<close>; where an \<^verbatim>\<open>int\<close> meets a \<^verbatim>\<open>float\<close> in an
    operation it is converted first, and the \<^verbatim>\<open>OverflowError\<close> of that conversion is
    modelled.
  \<^item> A raised exception is a value of \<open>py_error\<close>; a method that may raise returns its
    outcome together with the object (and the files) as they are when it returns or
    raises, because assignments made before a \<^verbatim>\<open>raise\<close> stay.
  \<^item> The file system is a map from paths to the rows the \<^verbatim>\<open>csv\<close> module reads from a file
    (each row a list of field texts); an absent file is \<open>None\<close>. Files are taken to end
    with a line terminator, as every file written through \<^verbatim>\<open>csv.writer\<close> does.
  \<^item> The built-ins \<^verbatim>\<open>str\<close>, \<^verbatim>\<open>int\<close>, \<^verbatim>\<open>repr\<close> and \<^verbatim>\<open>float\<close>, which turn numbers into field
    texts and back, are not code of the repository: they are a parameter \<open>L\<close> of type
    \<open>pylib\<close>. A failed conversion (\<^verbatim>\<open>ValueError\<close>) is \<open>None\<close>.
  \<^item> Of the lines printed by \<^verbatim>\<open>add_data_point\<close> only the recommendation is kept, as the
    value returned; \<^verbatim>\<open>plot_decay\<close> draws on the external plotting library and is not
    modelled.
\<close>

section \<open>debt_to_gdp.py\<close>

text \<open>The function returns either a number or a text: the two shapes of its result.\<close>

datatype py_value = Float real | Str string

definition calculate_target_debt_to_gdp :: "real \<Rightarrow> real \<Rightarrow> real option \<Rightarrow> py_value" where
  "calculate_target_debt_to_gdp interest_rate primary_surplus gdp_growth_rate =
     (let gdp_growth_rate = (case gdp_growth_rate of None \<Rightarrow> 0 | Some g \<Rightarrow> g) in
      if interest_rate > gdp_growth_rate
      then Float (primary_surplus / (interest_rate - gdp_growth_rate))
      else Str ''Interest rate must be higher than GDP growth rate for sustainable debt.'')"

section \<open>decay_calculator.py\<close>

subsection \<open>Data\<close>

datatype ContinueNewChoices = C | N

datatype message =
    Year_must_be_between int int
  | Initial_value_and_slope_must_be_set

datatype py_error = ValueError message | ZeroDivisionError | OverflowError | TypeError

datatype recommendation = Amortize_decay | Speed_up_decay | Decay_is_on_track

type_synonym csv_row = "string list"

type_synonym files = "string \<rightharpoonup> csv_row list"

record pylib =
  str_of_int :: "int \<Rightarrow> string"
  int_of_str :: "string \<Rightarrow> int option"
  repr_float :: "real \<Rightarrow> string"
  float_of_str :: "string \<Rightarrow> real option"

record DecayCalculator =
  start_year :: int
  end_year :: int
  output_file :: string
  year_value_pairs :: "(int \<times> real) list"
  initial_value :: "real option"
  slope :: "real option"

definition header_row :: csv_row where
  "header_row = [''Year'', ''Value'']"

subsection \<open>Library operations the methods use\<close>

text \<open>
  The conversion of an \<^verbatim>\<open>int\<close> to a \<^verbatim>\<open>float\<close> rounds to the nearest float, ties to even,
  and raises \<^verbatim>\<open>OverflowError\<close> (\<^verbatim>\<open>int too large to convert to float\<close>) when the result would
  lie beyond the largest float \<open>2^1024 - 2^971\<close>: that is from \<open>2^1024 - 2^970\<close> on, in
  either sign.
\<close>

definition float_int_limit :: int where
  "float_int_limit = 2 ^ 1024 - 2 ^ 970"

definition int_fits_float :: "int \<Rightarrow> bool" where
  "int_fits_float n \<longleftrightarrow> \<bar>n\<bar> < float_int_limit"

text \<open>
  Python's \<^verbatim>\<open>a / b\<close> with a \<^verbatim>\<open>float\<close> \<open>a\<close> and an \<^verbatim>\<open>int\<close> \<open>b\<close>: the divisor is converted,
  which may raise \<^verbatim>\<open>OverflowError\<close>; then a zero divisor raises \<^verbatim>\<open>ZeroDivisionError\<close>.
\<close>

definition py_truediv :: "real \<Rightarrow> int \<Rightarrow> py_error + real" where
  "py_truediv a b =
     (if \<not> int_fits_float b then Inl OverflowError
      else if b = 0 then Inl ZeroDivisionError
      else Inr (a / of_int b))"

text \<open>\<^verbatim>\<open>open(path, mode="a")\<close> creates an absent file; \<^verbatim>\<open>writerow\<close> adds one row at its end.\<close>

definition append_row :: "files \<Rightarrow> string \<Rightarrow> csv_row \<Rightarrow> files" where
  "append_row fs path row =
     fs(path \<mapsto> (case fs path of None \<Rightarrow> [] | Some rows \<Rightarrow> rows) @ [row])"

text \<open>
  One step of the comprehension \<^verbatim>\<open>(int(row[0]), float(row[1]))\<close>. A missing field
  (\<^verbatim>\<open>IndexError\<close>) and a text that is not a number (\<^verbatim>\<open>ValueError\<close>) both end in the same
  handler of the caller, so the failure is \<open>None\<close>.
\<close>

fun parse_row :: "pylib \<Rightarrow> csv_row \<Rightarrow> (int \<times> real) option" where
  "parse_row L (a # b # rest) =
     (case int_of_str L a of
        None \<Rightarrow> None
      | Some year \<Rightarrow>
          (case float_of_str L b of None \<Rightarrow> None | Some v \<Rightarrow> Some (year, v)))"
| "parse_row L row = None"

fun parse_rows :: "pylib \<Rightarrow> csv_row list \<Rightarrow> (int \<times> real) list option" where
  "parse_rows L [] = Some []"
| "parse_rows L (row # rows) =
     (case parse_row L row of
        None \<Rightarrow> None
      | Some p \<Rightarrow> (case parse_rows L rows of None \<Rightarrow> None | Some ps \<Rightarrow> Some (p # ps)))"

subsection \<open>The methods\<close>

text \<open>
  \<^verbatim>\<open>_load_existing_data\<close>. The three ways out of the \<^verbatim>\<open>try\<close> block: the file is absent
  (\<^verbatim>\<open>FileNotFoundError\<close>); an exception inside the block (no header to skip, a row that does
  not parse, a division that raises), which leaves the assignments made so far; the normal
  end.
  The file is only read.
\<close>

definition load_existing_data :: "pylib \<Rightarrow> DecayCalculator \<Rightarrow> files \<Rightarrow> DecayCalculator" where
  "load_existing_data L self fs =
     (case fs (output_file self) of
        None \<Rightarrow> self
      | Some [] \<Rightarrow> self
      | Some (header # rows) \<Rightarrow>
          (case parse_rows L rows of
             None \<Rightarrow> self
           | Some pairs \<Rightarrow>
               (let self1 = self\<lparr>year_value_pairs := pairs\<rparr> in
                case pairs of
                  [] \<Rightarrow> self1
                | first # others \<Rightarrow>
                    (let self2 = self1\<lparr>initial_value := Some (snd first)\<rparr> in
                     case py_truediv (- snd first) (end_year self2 - start_year self2) of
                       Inl err \<Rightarrow> self2
                     | Inr sl \<Rightarrow> self2\<lparr>slope := Some sl\<rparr>))))"

text \<open>\<^verbatim>\<open>__init__\<close>: every mode other than \<open>C\<close> rewrites the file as the header alone.\<close>

definition init ::
  "pylib \<Rightarrow> int \<Rightarrow> int \<Rightarrow> ContinueNewChoices \<Rightarrow> string \<Rightarrow> files \<Rightarrow> DecayCalculator \<times> files" where
  "init L start_year' end_year' continue_or_new output_file' fs =
     (let self = \<lparr>start_year = start_year', end_year = end_year',
                  output_file = output_file', year_value_pairs = [],
                  initial_value = None, slope = None\<rparr> in
      if continue_or_new = C then (load_existing_data L self fs, fs)
      else (self, fs(output_file' \<mapsto> [header_row])))"

text \<open>
  \<^verbatim>\<open>calculate_value\<close>, for the integer year that \<^verbatim>\<open>add_data_point\<close> passes. The product
  \<^verbatim>\<open>self.slope * (year - self.start_year)\<close> is evaluated before the sum: it converts the
  integer difference, which may raise \<^verbatim>\<open>OverflowError\<close>; with a slope but no initial value
  the sum \<^verbatim>\<open>None + float\<close> then raises \<^verbatim>\<open>TypeError\<close>.
\<close>

definition calculate_value :: "DecayCalculator \<Rightarrow> int \<Rightarrow> py_error + real" where
  "calculate_value self year =
     (case slope self of
        None \<Rightarrow> Inl (ValueError Initial_value_and_slope_must_be_set)
      | Some sl \<Rightarrow>
          if \<not> int_fits_float (year - start_year self) then Inl OverflowError
          else
            (case initial_value self of
               None \<Rightarrow> Inl TypeError
             | Some iv \<Rightarrow> Inr (iv + sl * of_int (year - start_year self))))"

text \<open>
  \<^verbatim>\<open>add_data_point\<close>, in the order of the source: the range check; the anchoring of the
  model when no initial value is set (the initial value is assigned before the division
  that may raise); the append to the list and to the file; the expected value; the
  recommendation.
\<close>

definition add_data_point ::
  "pylib \<Rightarrow> DecayCalculator \<Rightarrow> files \<Rightarrow> int \<Rightarrow> real
     \<Rightarrow> (py_error + recommendation) \<times> DecayCalculator \<times> files" where
  "add_data_point L self fs year v =
     (if \<not> (start_year self \<le> year \<and> year \<le> end_year self) then
        (Inl (ValueError (Year_must_be_between (start_year self) (end_year self))), self, fs)
      else
        (case (if initial_value self = None then
                 (let self1 = self\<lparr>initial_value := Some v\<rparr> in
                  case py_truediv (- v) (end_year self1 - start_year self1) of
                    Inl err \<Rightarrow> Inl (err, self1)
                  | Inr sl \<Rightarrow> Inr (self1\<lparr>slope := Some sl\<rparr>))
               else Inr self) of
           Inl (err, self1) \<Rightarrow> (Inl err, self1, fs)
         | Inr self2 \<Rightarrow>
             (let self3 = self2\<lparr>year_value_pairs := year_value_pairs self2 @ [(year, v)]\<rparr>;
                  fs' = append_row fs (output_file self3)
                          [str_of_int L year, repr_float L v]
              in case calculate_value self3 year of
                   Inl err \<Rightarrow> (Inl err, self3, fs')
                 | Inr expected_value \<Rightarrow>
                     (Inr (if v < expected_value then Amortize_decay
                           else if v > expected_value then Speed_up_decay
                           else Decay_is_on_track),
                      self3, fs'))))"

subsection \<open>Sessions\<close>

text \<open>
  A session is one construction followed by calls of \<^verbatim>\<open>add_data_point\<close>, as in the loop of
  the script. The caller here goes on after every exception; the script's own loop goes on
  after a \<^verbatim>\<open>ValueError\<close> and stops at any other exception, so what it can reach is reached
  by a shorter list of calls.
\<close>

fun run ::
  "pylib \<Rightarrow> DecayCalculator \<Rightarrow> files \<Rightarrow> (int \<times> real) list
     \<Rightarrow> (py_error + recommendation) list \<times> DecayCalculator \<times> files" where
  "run L self fs [] = ([], self, fs)"
| "run L self fs ((year, v) # calls) =
     (case add_data_point L self fs year v of
        (r, self', fs') \<Rightarrow>
          (case run L self' fs' calls of
             (rs, self'', fs'') \<Rightarrow> (r # rs, self'', fs'')))"

definition session ::
  "pylib \<Rightarrow> int \<Rightarrow> int \<Rightarrow> ContinueNewChoices \<Rightarrow> string \<Rightarrow> files \<Rightarrow> (int \<times> real) list
     \<Rightarrow> (py_error + recommendation) list \<times> DecayCalculator \<times> files" where
  "session L start_year' end_year' continue_or_new output_file' fs calls =
     (case init L start_year' end_year' continue_or_new output_file' fs of
        (self, fs') \<Rightarrow> run L self fs' calls)"

subsection \<open>Predicates used in the statements\<close>

text \<open>
  What Python promises of its conversions, for one observation: the text written for the
  year reads back as the year, and the text written for the value reads back as the value.
\<close>

definition reads_back :: "pylib \<Rightarrow> int \<Rightarrow> real \<Rightarrow> bool" where
  "reads_back L year v \<longleftrightarrow>
     int_of_str L (str_of_int L year) = Some year \<and> float_of_str L (repr_float L v) = Some v"

text \<open>
  The construction does not end in the handler of a failed load: the mode is \<open>N\<close>, or the
  file is there, has a first row to skip and every other row parses.
\<close>

definition loads_ok :: "pylib \<Rightarrow> ContinueNewChoices \<Rightarrow> string \<Rightarrow> files \<Rightarrow> bool" where
  "loads_ok L continue_or_new path fs =
     (if continue_or_new = C
      then (case fs path of
              None \<Rightarrow> False
            | Some [] \<Rightarrow> False
            | Some (header # rows) \<Rightarrow> parse_rows L rows \<noteq> None)
      else True)"

text \<open>The rows after the first row of the file are the observations of the object.\<close>

definition log_matches :: "pylib \<Rightarrow> DecayCalculator \<Rightarrow> files \<Rightarrow> bool" where
  "log_matches L self fs =
     (case fs (output_file self) of
        None \<Rightarrow> False
      | Some [] \<Rightarrow> False
      | Some (header # rows) \<Rightarrow> parse_rows L rows = Some (year_value_pairs self))"

text \<open>The division by \<open>d\<close> has a value: \<open>d\<close> is not zero and converts to a float.\<close>

definition divisor_ok :: "int \<Rightarrow> bool" where
  "divisor_ok d \<longleftrightarrow> d \<noteq> 0 \<and> int_fits_float d"

text \<open>
  The slope is the one derived from the first observation of the list, where that
  derivation has a value.
\<close>

definition anchored_to_first :: "DecayCalculator \<Rightarrow> bool" where
  "anchored_to_first self =
     (case year_value_pairs self of
        [] \<Rightarrow> slope self = None
              \<and> (initial_value self = None
                  \<or> \<not> divisor_ok (end_year self - start_year self))
      | first # others \<Rightarrow>
          initial_value self \<noteq> None
          \<and> slope self = (if divisor_ok (end_year self - start_year self)
                          then Some (- snd first / of_int (end_year self - start_year self))
                          else None))"

subsection \<open>A concrete library for the examples\<close>

text \<open>
  An instance of \<open>pylib\<close> on which the examples are evaluated: integers in plain decimal
  notation, as \<^verbatim>\<open>str\<close> writes them, and whole-valued floats with the \<^verbatim>\<open>.0\<close> that \<^verbatim>\<open>repr\<close>
  writes (\<^verbatim>\<open>repr(100.0)\<close> is \<^verbatim>\<open>'100.0'\<close>). The examples use no other numbers.
\<close>

definition digit_char :: "nat \<Rightarrow> char" where
  "digit_char d = ''0123456789'' ! d"

fun str_nat :: "nat \<Rightarrow> string" where
  "str_nat n =
     (if n < 10 then [digit_char n] else str_nat (n div 10) @ [digit_char (n mod 10)])"

definition str_int :: "int \<Rightarrow> string" where
  "str_int i = (if i < 0 then CHR ''-'' # str_nat (nat (- i)) else str_nat (nat i))"

definition char_digit :: "char \<Rightarrow> nat option" where
  "char_digit c = map_of (zip ''0123456789'' [0 ..< 10]) c"

fun read_nat :: "nat \<Rightarrow> string \<Rightarrow> nat option" where
  "read_nat acc [] = Some acc"
| "read_nat acc (c # cs) =
     (case char_digit c of None \<Rightarrow> None | Some d \<Rightarrow> read_nat (10 * acc + d) cs)"

definition read_int :: "string \<Rightarrow> int option" where
  "read_int s =
     (case s of
        [] \<Rightarrow> None
      | c # cs \<Rightarrow>
          if c = CHR ''-''
          then (if cs = [] then None else map_option (\<lambda>n. - int n) (read_nat 0 cs))
          else map_option int (read_nat 0 s))"

definition repr_whole :: "real \<Rightarrow> string" where
  "repr_whole v = str_int \<lfloor>v\<rfloor> @ ''.0''"

definition read_whole :: "string \<Rightarrow> real option" where
  "read_whole s =
     (if 2 < length s \<and> drop (length s - 2) s = ''.0''
      then map_option of_int (read_int (take (length s - 2) s)) else None)"

definition sample_lib :: pylib where
  "sample_lib = \<lparr>str_of_int = str_int, int_of_str = read_int,
                 repr_float = repr_whole, float_of_str = read_whole\<rparr>"

definition sample_path :: string where
  "sample_path = ''decay_data.csv''"

text \<open>
  The object of the scenario of the specification after its first observation
  \<open>(1836, 100.0)\<close>, and the log such a session writes.
\<close>

definition sample_calculator :: DecayCalculator where
  "sample_calculator =
     \<lparr>start_year = 1836, end_year = 1936, output_file = sample_path,
      year_value_pairs = [(1836, 100)], initial_value = Some 100, slope = Some (- 1)\<rparr>"

definition sample_log :: files where
  "sample_log = [sample_path \<mapsto> [header_row, [''1836'', ''100.0'']]]"

section \<open>Properties of calculate_target_debt_to_gdp\<close>

text \<open>
  Claim C9. With an interest rate above the growth rate the function returns the number
  \<open>primary_surplus / (interest_rate - gdp_growth_rate)\<close>; otherwise it returns a text, not a
  number. A growth rate that is not given counts as \<open>0\<close>. For \<open>(0.33, -3.88, 0)\<close> the
  number is \<open>-3.88 / 0.33\<close>, within \<open>0.001\<close> of \<open>-11.758\<close>; for \<open>(0.02, 1.0, 0.05)\<close> the
  result is the text.
\<close>

theorem calculate_target_debt_to_gdp_cases:
  "(interest_rate > g \<longrightarrow>
      calculate_target_debt_to_gdp interest_rate primary_surplus (Some g)
        = Float (primary_surplus / (interest_rate - g)))
   \<and> (interest_rate \<le> g \<longrightarrow>
      calculate_target_debt_to_gdp interest_rate primary_surplus (Some g)
        = Str ''Interest rate must be higher than GDP growth rate for sustainable debt.'')
   \<and> calculate_target_debt_to_gdp interest_rate primary_surplus None
        = calculate_target_debt_to_gdp interest_rate primary_surplus (Some 0)
   \<and> calculate_target_debt_to_gdp 0.33 (- 3.88) (Some 0) = Float (- 3.88 / 0.33)
   \<and> \<bar>(- 3.88 / 0.33 :: real) - (- 11.758)\<bar> < 0.001
   \<and> calculate_target_debt_to_gdp 0.02 1.0 (Some 0.05)
        = Str ''Interest rate must be higher than GDP growth rate for sustainable debt.''"
  by (simp add: calculate_target_debt_to_gdp_def)

theorem calculate_target_debt_to_gdp_cases_witness:
  "(0.05 :: real) > 0.02 \<and> (0.02 :: real) \<le> 0.05
   \<and> calculate_target_debt_to_gdp 0.05 1 (Some 0.02) = Float (1 / (0.05 - 0.02))
   \<and> calculate_target_debt_to_gdp 0.02 1 (Some 0.05)
        = Str ''Interest rate must be higher than GDP growth rate for sustainable debt.''"
  using calculate_target_debt_to_gdp_cases [of "0.02" "0.05" 1]
    calculate_target_debt_to_gdp_cases [of "0.05" "0.02" 1]
  by simp

section \<open>Facts about the methods\<close>

subsection \<open>Conversion and division\<close>

lemma int_fits_float_small: "\<bar>n\<bar> \<le> 2 ^ 64 \<Longrightarrow> int_fits_float n"
proof -
  have "(2 :: int) ^ 64 < 2 ^ 1024 - 2 ^ 970" by simp
  then show "\<bar>n\<bar> \<le> 2 ^ 64 \<Longrightarrow> int_fits_float n"
    by (simp add: int_fits_float_def float_int_limit_def)
qed

lemma int_fits_float_between:
  "0 \<le> m \<Longrightarrow> m \<le> n \<Longrightarrow> int_fits_float n \<Longrightarrow> int_fits_float m"
  by (simp add: int_fits_float_def)

lemma py_truediv_ok: "divisor_ok d \<Longrightarrow> py_truediv a d = Inr (a / of_int d)"
  by (simp add: py_truediv_def divisor_ok_def)

lemma py_truediv_fails: "\<not> divisor_ok d \<Longrightarrow> \<exists>err. py_truediv a d = Inl err"
  by (auto simp: py_truediv_def divisor_ok_def)

lemma py_truediv_Inr: "py_truediv a d = Inr q \<longleftrightarrow> divisor_ok d \<and> q = a / of_int d"
  by (auto simp: py_truediv_def divisor_ok_def)

subsection \<open>The outcomes of add_data_point\<close>

text \<open>
  The four ways through \<^verbatim>\<open>add_data_point\<close>: the year is out of range; the model is not
  anchored and the division of the anchoring raises; the model is not anchored and gets
  anchored; the model is anchored already.
\<close>

lemma add_out_of_range:
  "year < start_year self \<or> end_year self < year \<Longrightarrow>
   add_data_point L self fs year v =
     (Inl (ValueError (Year_must_be_between (start_year self) (end_year self))), self, fs)"
  by (auto simp: add_data_point_def)

lemma add_anchor_fails:
  assumes "start_year self \<le> year" "year \<le> end_year self" "initial_value self = None"
    "\<not> divisor_ok (end_year self - start_year self)"
  shows "\<exists>err. add_data_point L self fs year v =
     (Inl err, self\<lparr>initial_value := Some v\<rparr>, fs)"
  using assms py_truediv_fails[OF assms(4), of "- v"]
  by (auto simp: add_data_point_def)

lemma add_first:
  assumes "start_year self \<le> year" "year \<le> end_year self" "initial_value self = None"
    "divisor_ok (end_year self - start_year self)"
  shows "add_data_point L self fs year v =
     (let sl = - v / of_int (end_year self - start_year self);
          expected_value = v + sl * of_int (year - start_year self)
      in (Inr (if v < expected_value then Amortize_decay
               else if v > expected_value then Speed_up_decay
               else Decay_is_on_track),
          self\<lparr>initial_value := Some v, slope := Some sl,
               year_value_pairs := year_value_pairs self @ [(year, v)]\<rparr>,
          append_row fs (output_file self) [str_of_int L year, repr_float L v]))"
proof -
  have "int_fits_float (year - start_year self)"
    using assms int_fits_float_between[of "year - start_year self" "end_year self - start_year self"]
    by (simp add: divisor_ok_def)
  then show ?thesis
    using assms py_truediv_ok[OF assms(4), of "- v"]
    by (simp add: add_data_point_def calculate_value_def Let_def)
qed

lemma add_later:
  assumes "start_year self \<le> year" "year \<le> end_year self" "initial_value self = Some iv"
  shows "add_data_point L self fs year v =
     (let self3 = self\<lparr>year_value_pairs := year_value_pairs self @ [(year, v)]\<rparr>
      in (case calculate_value self3 year of
            Inl err \<Rightarrow> Inl err
          | Inr x \<Rightarrow> Inr (if v < x then Amortize_decay
                          else if v > x then Speed_up_decay
                          else Decay_is_on_track),
          self3,
          append_row fs (output_file self) [str_of_int L year, repr_float L v]))"
  using assms by (simp add: add_data_point_def Let_def split: sum.splits)

lemma add_data_point_cases:
  obtains
    (out_of_range) "year < start_year self \<or> end_year self < year"
      "add_data_point L self fs year v =
         (Inl (ValueError (Year_must_be_between (start_year self) (end_year self))), self, fs)"
  | (anchor_fails) err where "start_year self \<le> year" "year \<le> end_year self"
      "initial_value self = None" "\<not> divisor_ok (end_year self - start_year self)"
      "add_data_point L self fs year v = (Inl err, self\<lparr>initial_value := Some v\<rparr>, fs)"
  | (first) r where "start_year self \<le> year" "year \<le> end_year self"
      "initial_value self = None" "divisor_ok (end_year self - start_year self)"
      "add_data_point L self fs year v =
         (Inr r,
          self\<lparr>initial_value := Some v,
               slope := Some (- v / of_int (end_year self - start_year self)),
               year_value_pairs := year_value_pairs self @ [(year, v)]\<rparr>,
          append_row fs (output_file self) [str_of_int L year, repr_float L v])"
  | (later) iv r where "start_year self \<le> year" "year \<le> end_year self"
      "initial_value self = Some iv"
      "r = (case calculate_value
                   (self\<lparr>year_value_pairs := year_value_pairs self @ [(year, v)]\<rparr>) year of
              Inl err \<Rightarrow> Inl err
            | Inr x \<Rightarrow> Inr (if v < x then Amortize_decay
                            else if v > x then Speed_up_decay
                            else Decay_is_on_track))"
      "add_data_point L self fs year v =
         (r, self\<lparr>year_value_pairs := year_value_pairs self @ [(year, v)]\<rparr>,
          append_row fs (output_file self) [str_of_int L year, repr_float L v])"
proof (cases "start_year self \<le> year \<and> year \<le> end_year self")
  case False
  then have "year < start_year self \<or> end_year self < year" by auto
  then show ?thesis using out_of_range add_out_of_range by blast
next
  case inr: True
  show ?thesis
  proof (cases "initial_value self")
    case (Some iv)
    then show ?thesis
      using later[of iv] add_later[of self year iv L fs v] inr by (simp add: Let_def)
  next
    case None
    show ?thesis
    proof (cases "divisor_ok (end_year self - start_year self)")
      case True
      then show ?thesis
        using first add_first[of self year L fs v] inr None by (simp add: Let_def)
    next
      case False
      then show ?thesis
        using anchor_fails add_anchor_fails[of self year L fs v] inr None by blast
    qed
  qed
qed

lemma calculate_value_no_slope:
  "slope self = None \<Longrightarrow>
   calculate_value self year = Inl (ValueError Initial_value_and_slope_must_be_set)"
  by (simp add: calculate_value_def)

subsection \<open>The configuration is fixed at construction\<close>

lemma add_config:
  assumes "add_data_point L self fs year v = (r, self', fs')"
  shows "start_year self' = start_year self \<and> end_year self' = end_year self
         \<and> output_file self' = output_file self"
  using assms
  by (cases rule: add_data_point_cases[of year self L fs v]) auto

lemma run_config:
  "run L self fs calls = (rs, self', fs') \<Longrightarrow>
   start_year self' = start_year self \<and> end_year self' = end_year self
         \<and> output_file self' = output_file self"
proof (induction calls arbitrary: self fs rs)
  case Nil
  then show ?case by simp
next
  case (Cons c calls)
  obtain year v where c: "c = (year, v)" by (cases c)
  obtain r self1 fs1 where a: "add_data_point L self fs year v = (r, self1, fs1)"
    by (cases "add_data_point L self fs year v")
  obtain rs2 where "run L self1 fs1 calls = (rs2, self', fs')"
    using Cons.prems c a by (auto split: prod.splits)
  from Cons.IH[OF this] add_config[OF a] show ?case by simp
qed

lemma load_config:
  "start_year (load_existing_data L self fs) = start_year self
   \<and> end_year (load_existing_data L self fs) = end_year self
   \<and> output_file (load_existing_data L self fs) = output_file self"
  by (simp add: load_existing_data_def Let_def py_truediv_def split: option.splits list.splits)

lemma init_config:
  "init L s e mode path fs = (self, fs') \<Longrightarrow>
     start_year self = s \<and> end_year self = e \<and> output_file self = path"
  using load_config by (auto simp: init_def Let_def split: if_splits)

subsection \<open>Invariants of a run of calls\<close>

text \<open>What the construction establishes and every call keeps holds after the session.\<close>

lemma run_invariant:
  assumes "P self fs"
    and "\<And>self fs year v r self' fs'.
           P self fs \<Longrightarrow> (year, v) \<in> set calls \<Longrightarrow>
           add_data_point L self fs year v = (r, self', fs') \<Longrightarrow> P self' fs'"
    and "run L self fs calls = (rs, self', fs')"
  shows "P self' fs'"
  using assms
proof (induction calls arbitrary: self fs rs)
  case Nil
  then show ?case by simp
next
  case (Cons c calls)
  obtain year v where c: "c = (year, v)" by (cases c)
  obtain r self1 fs1 where a: "add_data_point L self fs year v = (r, self1, fs1)"
    by (cases "add_data_point L self fs year v")
  obtain rs2 where r: "run L self1 fs1 calls = (rs2, self', fs')"
    using Cons.prems(3) c a by (auto split: prod.splits)
  have "P self1 fs1"
    using Cons.prems(2)[OF Cons.prems(1) _ a] c by simp
  moreover have "\<And>self fs year v r self' fs'.
           P self fs \<Longrightarrow> (year, v) \<in> set calls \<Longrightarrow>
           add_data_point L self fs year v = (r, self', fs') \<Longrightarrow> P self' fs'"
    using Cons.prems(2) by (meson list.set_intros(2))
  ultimately show ?case using Cons.IH r by blast
qed

lemma sample_calculator_reached:
  "fst (snd (session L 1836 1936 N sample_path fs [(1836, 100)])) = sample_calculator"
  by (simp add: session_def init_def add_data_point_def Let_def py_truediv_def
      calculate_value_def sample_calculator_def int_fits_float_small)

section \<open>The expected value in exact arithmetic\<close>

text \<open>
  With the sum, the product and the quotient taken exactly, the expected value of a model
  anchored by \<open>-initial_value / (end_year - start_year)\<close> is the initial value at the start
  year and \<open>0\<close> at the end year. The floats of the source round each of the three
  operations, so that the value they give at the end year need not be \<open>0\<close>.
\<close>

lemma calculate_value_exact:
  assumes "initial_value self = Some iv" and "slope self = Some sl"
    and "py_truediv (- iv) (end_year self - start_year self) = Inr sl"
    and "start_year self \<le> year" and "year \<le> end_year self"
  shows "calculate_value self year = Inr (iv + sl * of_int (year - start_year self))
       \<and> calculate_value self (start_year self) = Inr iv
       \<and> calculate_value self (end_year self) = Inr 0"
proof -
  have ok: "divisor_ok (end_year self - start_year self)"
    and sl: "sl = - iv / of_int (end_year self - start_year self)"
    using assms(3) by (simp_all add: py_truediv_Inr)
  have fits: "\<And>y. start_year self \<le> y \<Longrightarrow> y \<le> end_year self
                \<Longrightarrow> int_fits_float (y - start_year self)"
    using ok int_fits_float_between[of _ "end_year self - start_year self"]
    by (simp add: divisor_ok_def)
  have f: "\<And>y. start_year self \<le> y \<Longrightarrow> y \<le> end_year self \<Longrightarrow>
             calculate_value self y = Inr (iv + sl * of_int (y - start_year self))"
    using assms(1,2) fits by (simp add: calculate_value_def)
  have le: "start_year self \<le> end_year self" using assms(4,5) by simp
  have "sl * of_int (end_year self - start_year self) = - iv"
    using ok sl by (simp add: divisor_ok_def)
  then have "iv + sl * of_int (end_year self - start_year self) = 0" by simp
  then show ?thesis using f[OF assms(4,5)] f[of "start_year self"] f[of "end_year self"] le
    by simp
qed

section \<open>The range check\<close>

text \<open>
  Claim C3. With a year below the start year or above the end year, \<^verbatim>\<open>add_data_point\<close>
  raises the range error, and the object (its observations, its initial value and its
  slope) and the files are exactly what they were before the call.
\<close>

theorem add_data_point_out_of_range:
  assumes "year < start_year self \<or> end_year self < year"
  shows "add_data_point L self fs year v =
     (Inl (ValueError (Year_must_be_between (start_year self) (end_year self))), self, fs)"
  using assms by (auto simp: add_data_point_def)

theorem add_data_point_out_of_range_witness:
  "add_data_point sample_lib sample_calculator sample_log 1800 5 =
     (Inl (ValueError (Year_must_be_between 1836 1936)), sample_calculator, sample_log)"
proof -
  have h: "1800 < start_year sample_calculator \<or> end_year sample_calculator < 1800"
    by (simp add: sample_calculator_def)
  show ?thesis
    using add_data_point_out_of_range[OF h, of sample_lib sample_log 5]
    by (simp add: sample_calculator_def)
qed

section \<open>The model is anchored once\<close>

lemma add_keeps_model:
  assumes "initial_value self \<noteq> None"
    and "add_data_point L self fs year v = (r, self', fs')"
  shows "initial_value self' = initial_value self \<and> slope self' = slope self"
  using assms
  by (cases rule: add_data_point_cases[of year self L fs v]) auto

lemma run_keeps_model:
  assumes "initial_value self \<noteq> None"
    and "run L self fs calls = (rs, self', fs')"
  shows "initial_value self' = initial_value self \<and> slope self' = slope self"
proof -
  let ?P = "\<lambda>t (g :: files). initial_value t = initial_value self \<and> slope t = slope self"
  have "?P self' fs'"
  proof (rule run_invariant[where P = ?P, OF _ _ assms(2)])
    show "?P self fs" by simp
  next
    fix t g year v r t' g'
    assume "?P t g" and "add_data_point L t g year v = (r, t', g')"
    then show "?P t' g'" using add_keeps_model[of t L g year v r t' g'] assms(1) by simp
  qed
  then show ?thesis .
qed

lemma init_unanchored:
  assumes "init L s e mode path fs = (self, fs')" and "initial_value self = None"
  shows "slope self = None"
  using assms
  by (auto simp: init_def load_existing_data_def Let_def
      split: if_splits option.splits list.splits sum.splits)

lemma failed_add_unanchored:
  assumes "slope self = None"
    and "initial_value self = None \<or> \<not> divisor_ok (end_year self - start_year self)"
    and "add_data_point L self fs year v = (Inl err, self', fs')"
  shows "slope self' = None
       \<and> (initial_value self' = None \<or> \<not> divisor_ok (end_year self' - start_year self'))"
  using assms
  by (cases rule: add_data_point_cases[of year self L fs v]) auto

lemma success_from_unanchored:
  assumes "slope self = None"
    and "initial_value self = None \<or> \<not> divisor_ok (end_year self - start_year self)"
    and "add_data_point L self fs year v = (Inr r, self', fs')"
  shows "initial_value self' = Some v
       \<and> slope self' = Some (- v / of_int (end_year self - start_year self))
       \<and> divisor_ok (end_year self - start_year self)"
  using assms
  by (cases rule: add_data_point_cases[of year self L fs v])
    (auto simp: calculate_value_no_slope)

lemma failed_run_unanchored:
  assumes "slope self = None"
    and "initial_value self = None \<or> \<not> divisor_ok (end_year self - start_year self)"
    and "run L self fs calls = (rs, self', fs')"
    and "\<forall>r \<in> set rs. isl r"
  shows "slope self' = None
       \<and> (initial_value self' = None \<or> \<not> divisor_ok (end_year self' - start_year self'))"
  using assms
proof (induction calls arbitrary: self fs rs)
  case Nil
  then show ?case by simp
next
  case (Cons c calls)
  obtain year v where c: "c = (year, v)" by (cases c)
  obtain r self1 fs1 where a: "add_data_point L self fs year v = (r, self1, fs1)"
    by (cases "add_data_point L self fs year v")
  obtain rs2 where r: "run L self1 fs1 calls = (rs2, self', fs')" and rs: "rs = r # rs2"
    using Cons.prems(3) c a by (auto split: prod.splits)
  from rs Cons.prems(4) obtain err where "r = Inl err"
    by (cases r) auto
  with a have "slope self1 = None
      \<and> (initial_value self1 = None \<or> \<not> divisor_ok (end_year self1 - start_year self1))"
    using failed_add_unanchored Cons.prems(1,2) by blast
  moreover have "\<forall>r \<in> set rs2. isl r" using rs Cons.prems(4) by simp
  ultimately show ?case using Cons.IH r by blast
qed

text \<open>
  Claim C2, as the code has it. When the construction leaves the model without an initial
  value (mode \<open>N\<close>, or mode \<open>C\<close> with nothing loaded), the first call of
  \<^verbatim>\<open>add_data_point\<close> that succeeds, whatever calls failed before it, sets the initial value
  to its value and the slope to \<open>-value / (end_year - start_year)\<close>. Once an initial value
  is set, by a call or by the load of mode \<open>C\<close>, no sequence of calls changes the initial
  value or the slope.
\<close>

theorem first_successful_call_anchors:
  "(init L s e mode path fs = (self0, fs0) \<and> initial_value self0 = None
      \<and> run L self0 fs0 before = (rs, self1, fs1) \<and> (\<forall>r \<in> set rs. isl r)
      \<and> add_data_point L self1 fs1 year v = (Inr r, self2, fs2)
    \<longrightarrow> initial_value self2 = Some v \<and> slope self2 = Some (- v / of_int (e - s)))
   \<and> (initial_value self \<noteq> None \<and> run L self fs' calls = (rs', self', fs'')
    \<longrightarrow> initial_value self' = initial_value self \<and> slope self' = slope self)"
proof (intro conjI impI)
  assume h: "init L s e mode path fs = (self0, fs0) \<and> initial_value self0 = None
      \<and> run L self0 fs0 before = (rs, self1, fs1) \<and> (\<forall>r \<in> set rs. isl r)
      \<and> add_data_point L self1 fs1 year v = (Inr r, self2, fs2)"
  then have s0: "slope self0 = None" using init_unanchored by blast
  have cfg0: "start_year self0 = s \<and> end_year self0 = e" using h init_config by blast
  have cfg1: "start_year self1 = s \<and> end_year self1 = e" using h run_config cfg0 by metis
  have "slope self1 = None
      \<and> (initial_value self1 = None \<or> \<not> divisor_ok (end_year self1 - start_year self1))"
    using failed_run_unanchored[of self0 L fs0 before rs self1 fs1] h s0 by blast
  then have r: "initial_value self2 = Some v
       \<and> slope self2 = Some (- v / of_int (end_year self1 - start_year self1))"
    using success_from_unanchored[of self1 L fs1 year v r self2 fs2] h by blast
  from r show "initial_value self2 = Some v" by simp
  from r cfg1 show "slope self2 = Some (- v / of_int (e - s))" by simp
next
  assume h: "initial_value self \<noteq> None \<and> run L self fs' calls = (rs', self', fs'')"
  then have "initial_value self' = initial_value self \<and> slope self' = slope self"
    using run_keeps_model by blast
  then show "initial_value self' = initial_value self" "slope self' = slope self" by simp_all
qed

theorem first_successful_call_anchors_witness:
  "initial_value (fst (snd (add_data_point sample_lib
       (fst (init sample_lib 1836 1936 N sample_path Map.empty))
       (snd (init sample_lib 1836 1936 N sample_path Map.empty)) 1836 100))) = Some 100
   \<and> slope (fst (snd (add_data_point sample_lib
       (fst (init sample_lib 1836 1936 N sample_path Map.empty))
       (snd (init sample_lib 1836 1936 N sample_path Map.empty)) 1836 100))) = Some (- 1)
   \<and> initial_value (fst (snd (run sample_lib sample_calculator sample_log [(1886, 50), (1800, 1)])))
       = Some 100
   \<and> slope (fst (snd (run sample_lib sample_calculator sample_log [(1886, 50), (1800, 1)])))
       = Some (- 1)"
proof -
  let ?S0 = "fst (init sample_lib 1836 1936 N sample_path Map.empty)"
  let ?F0 = "snd (init sample_lib 1836 1936 N sample_path Map.empty)"
  let ?A = "add_data_point sample_lib ?S0 ?F0 1836 100"
  let ?R = "run sample_lib sample_calculator sample_log [(1886, 50), (1800, 1)]"
  have h1: "init sample_lib 1836 1936 N sample_path Map.empty = (?S0, ?F0)
      \<and> initial_value ?S0 = None
      \<and> run sample_lib ?S0 ?F0 [(1800, 5)]
          = ([Inl (ValueError (Year_must_be_between 1836 1936))], ?S0, ?F0)
      \<and> (\<forall>r \<in> set [Inl (ValueError (Year_must_be_between 1836 1936)) :: py_error + recommendation]. isl r)
      \<and> ?A = (Inr Decay_is_on_track, fst (snd ?A), snd (snd ?A))"
    by (simp add: init_def add_data_point_def Let_def py_truediv_def calculate_value_def
        int_fits_float_small)
  have h2: "initial_value sample_calculator \<noteq> None
      \<and> ?R = (fst ?R, fst (snd ?R), snd (snd ?R))"
    by (simp add: sample_calculator_def)
  have e: "- 100 / real_of_int (1936 - 1836) = - 1" by simp
  show ?thesis
    using first_successful_call_anchors[where L = sample_lib and s = 1836 and e = 1936
        and mode = N and path = sample_path and fs = Map.empty and ?self0.0 = ?S0 and ?fs0.0 = ?F0
        and before = "[(1800, 5)]"
        and rs = "[Inl (ValueError (Year_must_be_between 1836 1936))]"
        and ?self1.0 = ?S0 and ?fs1.0 = ?F0 and year = 1836 and v = 100
        and r = Decay_is_on_track and ?self2.0 = "fst (snd ?A)" and ?fs2.0 = "snd (snd ?A)"
        and self = sample_calculator and fs' = sample_log
        and calls = "[(1886, 50), (1800, 1)]" and rs' = "fst ?R"
        and self' = "fst (snd ?R)" and fs'' = "snd (snd ?R)"]
      h1 h2 e
    by (simp add: sample_calculator_def)
qed

text \<open>
  After a load in mode \<open>C\<close> that found an observation, the first successful call of the
  session does not set the initial value: it stays the value of the first row.
\<close>

theorem first_call_after_reload_counterexample:
  "fst (session sample_lib 1836 1936 C sample_path sample_log [(1886, 50)])
     = [Inr Decay_is_on_track]
   \<and> initial_value (fst (snd (session sample_lib 1836 1936 C sample_path sample_log [(1886, 50)])))
     = Some 100
   \<and> initial_value (fst (snd (session sample_lib 1836 1936 C sample_path sample_log [(1886, 50)])))
     \<noteq> Some 50"
  by code_simp

section \<open>Loading the log\<close>

lemma parse_rows_of_fields:
  assumes "list_all2 (\<lambda>row (year, v). \<exists>a b. row = [a, b]
              \<and> int_of_str L a = Some year \<and> float_of_str L b = Some v) rows pairs"
  shows "parse_rows L rows = Some pairs"
  using assms by (induction rows pairs rule: list_all2_induct) auto

text \<open>
  Claim C4, as the code has it. The log is the header row followed by rows of two fields,
  the first the text of an integer and the second the text of a real. The construction in
  mode \<open>C\<close> then yields one observation for each row, in the order of the rows, with the
  integer of the first field as year and the real of the second field as value, and leaves
  the files alone. When there is a row, the initial value is the value of the first row;
  the slope is \<open>-initial_value / (end_year - start_year)\<close> when \<open>end_year - start_year\<close> is
  not zero and converts to a float, and it stays unset otherwise, the division having
  raised inside the load.
\<close>

theorem continue_loads_rows:
  assumes "fs path = Some (header_row # rows)"
    and "list_all2 (\<lambda>row (year, v). \<exists>a b. row = [a, b]
              \<and> int_of_str L a = Some year \<and> float_of_str L b = Some v) rows pairs"
  shows "year_value_pairs (fst (init L s e C path fs)) = pairs
       \<and> length (year_value_pairs (fst (init L s e C path fs))) = length rows
       \<and> snd (init L s e C path fs) = fs
       \<and> (rows \<noteq> [] \<longrightarrow>
            initial_value (fst (init L s e C path fs)) = Some (snd (hd pairs)))
       \<and> (rows \<noteq> [] \<and> s \<noteq> e \<and> int_fits_float (e - s) \<longrightarrow>
            slope (fst (init L s e C path fs)) = Some (- snd (hd pairs) / of_int (e - s)))
       \<and> (s = e \<or> \<not> int_fits_float (e - s) \<longrightarrow>
            slope (fst (init L s e C path fs)) = None)"
proof -
  have p: "parse_rows L rows = Some pairs"
    using parse_rows_of_fields[OF assms(2)] .
  have l: "length pairs = length rows"
    using assms(2) by (simp add: list_all2_lengthD)
  show ?thesis
    using assms(1) p l
    by (cases pairs) (auto simp: init_def load_existing_data_def Let_def py_truediv_def)
qed

lemma sample_lib_reads:
  "int_of_str sample_lib ''1836'' = Some 1836"
  "float_of_str sample_lib ''100.0'' = Some 100"
  by code_simp+

theorem continue_loads_rows_witness:
  "year_value_pairs (fst (init sample_lib 1836 1936 C sample_path sample_log)) = [(1836, 100)]
   \<and> length (year_value_pairs (fst (init sample_lib 1836 1936 C sample_path sample_log))) = 1
   \<and> initial_value (fst (init sample_lib 1836 1936 C sample_path sample_log)) = Some 100
   \<and> slope (fst (init sample_lib 1836 1936 C sample_path sample_log)) = Some (- 1)"
proof -
  have h1: "sample_log sample_path = Some (header_row # [[''1836'', ''100.0'']])"
    by (simp add: sample_log_def)
  have h2: "list_all2 (\<lambda>row (year, v). \<exists>a b. row = [a, b]
              \<and> int_of_str sample_lib a = Some year \<and> float_of_str sample_lib b = Some v)
            [[''1836'', ''100.0'']] [(1836, 100)]"
    by (simp add: sample_lib_reads)
  have h3: "int_fits_float (1936 - 1836)"
    by (simp add: int_fits_float_small)
  show ?thesis
    using continue_loads_rows[where fs = sample_log and path = sample_path and s = 1836
        and e = 1936, OF h1 h2] h3
    by simp
qed

text \<open>
  A calculator for the single year \<open>1836\<close> loads the log of one row: the observation and
  the initial value are set, the slope is not.
\<close>

theorem continue_loads_rows_counterexample:
  "year_value_pairs (fst (init sample_lib 1836 1836 C sample_path sample_log)) = [(1836, 100)]
   \<and> initial_value (fst (init sample_lib 1836 1836 C sample_path sample_log)) = Some 100
   \<and> slope (fst (init sample_lib 1836 1836 C sample_path sample_log)) = None"
  by code_simp

section \<open>The header of the log\<close>

text \<open>
  Claim C7, evaluated where the code departs from it. Mode \<open>C\<close> with no file writes
  nothing; the first \<^verbatim>\<open>add_data_point\<close> then creates the file by its append, and the only
  row of the file is the observation: the file does not begin with the header row.
\<close>

theorem continue_without_file_writes_no_header:
  "snd (init sample_lib 1836 1936 C sample_path Map.empty) sample_path = None
   \<and> snd (snd (session sample_lib 1836 1936 C sample_path Map.empty [(1836, 100)])) sample_path
     = Some [[''1836'', ''100.0'']]
   \<and> map_option hd
       (snd (snd (session sample_lib 1836 1936 C sample_path Map.empty [(1836, 100)])) sample_path)
     \<noteq> Some header_row"
  by code_simp

text \<open>The same for every library: the file is the one row written by the call.\<close>

lemma continue_without_file_single_row:
  "snd (snd (session L 1836 1936 C path Map.empty [(1836, 100)])) path
     = Some [[str_of_int L 1836, repr_float L 100]]"
  by (simp add: session_def init_def load_existing_data_def add_data_point_def Let_def
      py_truediv_def calculate_value_def append_row_def int_fits_float_small)

section \<open>Writing and reloading\<close>

lemma parse_rows_append:
  "parse_rows L (rows @ [row]) =
     (case parse_rows L rows of
        None \<Rightarrow> None
      | Some ps \<Rightarrow> (case parse_row L row of None \<Rightarrow> None | Some p \<Rightarrow> Some (ps @ [p])))"
  by (induction rows) (auto split: option.splits)

lemma parse_written_row:
  "reads_back L year v \<Longrightarrow> parse_row L [str_of_int L year, repr_float L v] = Some (year, v)"
  by (simp add: reads_back_def)

lemma append_row_log_matches:
  assumes "log_matches L self fs" and "reads_back L year v"
    and "output_file self' = output_file self"
    and "year_value_pairs self' = year_value_pairs self @ [(year, v)]"
  shows "log_matches L self'
           (append_row fs (output_file self) [str_of_int L year, repr_float L v])"
  using assms parse_written_row[OF assms(2)]
  by (auto simp: log_matches_def append_row_def parse_rows_append
      split: option.splits list.splits)

lemma log_matches_cong:
  assumes "log_matches L self fs"
    and "output_file self' = output_file self"
    and "year_value_pairs self' = year_value_pairs self"
  shows "log_matches L self' fs"
  using assms by (simp add: log_matches_def split: option.splits list.splits)

lemma add_log_matches:
  assumes "log_matches L self fs" and "reads_back L year v"
    and "add_data_point L self fs year v = (r, self', fs')"
  shows "log_matches L self' fs'"
proof (cases rule: add_data_point_cases[of year self L fs v])
  case out_of_range
  then show ?thesis using assms by simp
next
  case (anchor_fails err)
  then show ?thesis using assms log_matches_cong[OF assms(1), of self'] by auto
next
  case (first r')
  then show ?thesis
    using assms append_row_log_matches[OF assms(1,2), of self'] by auto
next
  case (later iv r')
  then show ?thesis
    using assms append_row_log_matches[OF assms(1,2), of self'] by auto
qed

lemma add_anchored_to_first:
  assumes "anchored_to_first self"
    and "add_data_point L self fs year v = (r, self', fs')"
  shows "anchored_to_first self'"
  using assms
  by (cases rule: add_data_point_cases[of year self L fs v])
    (auto simp: anchored_to_first_def split: list.splits)

lemma init_log_matches:
  assumes "loads_ok L mode path fs" and "init L s e mode path fs = (self, fs')"
  shows "log_matches L self fs'"
  using assms
  by (auto simp: loads_ok_def init_def log_matches_def load_existing_data_def Let_def
      split: if_splits option.splits list.splits sum.splits)

lemma init_anchored_to_first:
  assumes "init L s e mode path fs = (self, fs')"
  shows "anchored_to_first self"
  using assms
  by (auto simp: init_def anchored_to_first_def load_existing_data_def Let_def
      py_truediv_Inr py_truediv_def divisor_ok_def
      split: if_splits option.splits list.splits sum.splits)

lemma reload_of_matching_log:
  assumes "log_matches L self fs" and "anchored_to_first self"
  shows "year_value_pairs (fst (init L (start_year self) (end_year self) C (output_file self) fs))
           = year_value_pairs self
       \<and> slope (fst (init L (start_year self) (end_year self) C (output_file self) fs))
           = slope self"
  using assms
  by (auto simp: init_def log_matches_def anchored_to_first_def load_existing_data_def Let_def
      py_truediv_def divisor_ok_def split: if_splits option.splits list.splits sum.splits)

text \<open>
  Where the construction does not end in the handler of a failed load, and the texts
  written read back as the numbers written, a reload in mode \<open>C\<close> of the log of a session
  gives the observations and the slope of the session.
\<close>

lemma reload_reproduces_session:
  assumes "loads_ok L mode path fs"
    and "\<forall>(year, v) \<in> set calls. reads_back L year v"
    and "session L s e mode path fs calls = (rs, self, fs')"
  shows "year_value_pairs (fst (init L s e C path fs')) = year_value_pairs self
       \<and> slope (fst (init L s e C path fs')) = slope self"
proof -
  obtain self0 fs0 where i: "init L s e mode path fs = (self0, fs0)"
    by (cases "init L s e mode path fs")
  with assms(3) have r: "run L self0 fs0 calls = (rs, self, fs')"
    by (simp add: session_def)
  let ?P = "\<lambda>t g. log_matches L t g \<and> anchored_to_first t"
  have "?P self fs'"
  proof (rule run_invariant[where P = ?P, OF _ _ r])
    show "?P self0 fs0"
      using init_log_matches[OF assms(1) i] init_anchored_to_first[OF i] by simp
  next
    fix t g year v r t' g'
    assume p: "?P t g" and c: "(year, v) \<in> set calls"
      and a: "add_data_point L t g year v = (r, t', g')"
    from c assms(2) have "reads_back L year v" by auto
    then show "?P t' g'"
      using add_log_matches[OF _ _ a] add_anchored_to_first[OF _ a] p by simp
  qed
  moreover have "start_year self = s \<and> end_year self = e \<and> output_file self = path"
    using init_config[OF i] run_config[OF r] by simp
  ultimately show ?thesis using reload_of_matching_log[of L self fs'] by simp
qed

text \<open>
  Claim C5, evaluated where the code departs from it. A session in mode \<open>C\<close> with no file
  adds \<open>(1836, 100.0)\<close> and \<open>(1886, 50.0)\<close>; its log has no header row, so the reload skips
  the first observation: it yields one observation instead of two, and the slope \<open>-0.5\<close>
  instead of \<open>-1\<close>.
\<close>

theorem continue_without_file_reload_differs:
  "year_value_pairs (fst (snd (session sample_lib 1836 1936 C sample_path Map.empty
                                  [(1836, 100), (1886, 50)])))
     = [(1836, 100), (1886, 50)]
   \<and> slope (fst (snd (session sample_lib 1836 1936 C sample_path Map.empty
                         [(1836, 100), (1886, 50)])))
     = Some (- 1)
   \<and> year_value_pairs (fst (init sample_lib 1836 1936 C sample_path
         (snd (snd (session sample_lib 1836 1936 C sample_path Map.empty
                      [(1836, 100), (1886, 50)])))))
     = [(1886, 50)]
   \<and> slope (fst (init sample_lib 1836 1936 C sample_path
         (snd (snd (session sample_lib 1836 1936 C sample_path Map.empty
                      [(1836, 100), (1886, 50)])))))
     = Some (- (1 / 2))"
  by code_simp

section \<open>The years of the observations\<close>

lemma add_appends_in_range:
  assumes "add_data_point L self fs year v = (r, self', fs')"
  shows "year_value_pairs self' = year_value_pairs self
       \<or> (year_value_pairs self' = year_value_pairs self @ [(year, v)]
            \<and> start_year self \<le> year \<and> year \<le> end_year self)"
  using assms
  by (cases rule: add_data_point_cases[of year self L fs v]) auto

text \<open>
  What \<^verbatim>\<open>add_data_point\<close> keeps: after a session the observations are those the
  construction loaded, followed by observations whose years lie between the start year
  and the end year.
\<close>

lemma session_appends_in_range:
  assumes "session L s e mode path fs calls = (rs, self, fs')"
  shows "\<exists>added. year_value_pairs self = year_value_pairs (fst (init L s e mode path fs)) @ added
           \<and> (\<forall>(year, v) \<in> set added. s \<le> year \<and> year \<le> e)"
proof -
  obtain self0 fs0 where i: "init L s e mode path fs = (self0, fs0)"
    by (cases "init L s e mode path fs")
  with assms have r: "run L self0 fs0 calls = (rs, self, fs')"
    by (simp add: session_def)
  let ?P = "\<lambda>t (g :: files). start_year t = s \<and> end_year t = e
              \<and> (\<exists>added. year_value_pairs t = year_value_pairs self0 @ added
                    \<and> (\<forall>(year, v) \<in> set added. s \<le> year \<and> year \<le> e))"
  have "?P self fs'"
  proof (rule run_invariant[where P = ?P, OF _ _ r])
    show "?P self0 fs0" using init_config[OF i] by simp
  next
    fix t g year v r t' g'
    assume p: "?P t g" and a: "add_data_point L t g year v = (r, t', g')"
    then obtain added where ad: "year_value_pairs t = year_value_pairs self0 @ added"
      "\<forall>(year, v) \<in> set added. s \<le> year \<and> year \<le> e" by blast
    from add_appends_in_range[OF a]
    have "\<exists>added'. year_value_pairs t' = year_value_pairs self0 @ added'
                    \<and> (\<forall>(year, v) \<in> set added'. s \<le> year \<and> year \<le> e)"
    proof
      assume "year_value_pairs t' = year_value_pairs t"
      with ad show ?thesis by auto
    next
      assume h: "year_value_pairs t' = year_value_pairs t @ [(year, v)]
            \<and> start_year t \<le> year \<and> year \<le> end_year t"
      with ad p have "year_value_pairs t' = year_value_pairs self0 @ (added @ [(year, v)])
           \<and> (\<forall>(year, v) \<in> set (added @ [(year, v)]). s \<le> year \<and> year \<le> e)" by auto
      then show ?thesis by blast
    qed
    then show "?P t' g'" using add_config[OF a] p by simp
  qed
  then show ?thesis using i by auto
qed

text \<open>
  So the years of all observations are in range after a session whose construction
  loaded none out of range: after mode \<open>N\<close>, after mode \<open>C\<close> with no file, and after mode
  \<open>C\<close> over a log whose years are in range.
\<close>

lemma observations_in_range_after_load_in_range:
  assumes "session L s e mode path fs calls = (rs, self, fs')"
    and "\<forall>(year, v) \<in> set (year_value_pairs (fst (init L s e mode path fs))).
           s \<le> year \<and> year \<le> e"
  shows "\<forall>(year, v) \<in> set (year_value_pairs self). s \<le> year \<and> year \<le> e"
  using session_appends_in_range[OF assms(1)] assms(2) by auto

text \<open>
  Claim C8, evaluated where the code departs from it. A session for the years \<open>1836\<close> to
  \<open>2036\<close> writes the observation \<open>(2000, 1.0)\<close> to its log. A calculator for the years
  \<open>1836\<close> to \<open>1936\<close> constructed in mode \<open>C\<close> over that log holds the observation of the
  year \<open>2000\<close>, above its end year: the load checks no range, where \<^verbatim>\<open>add_data_point\<close> on
  the same calculator refuses the same observation.
\<close>

theorem reload_admits_year_out_of_range:
  "snd (snd (session sample_lib 1836 2036 N sample_path Map.empty [(2000, 1)])) sample_path
     = Some [header_row, [''2000'', ''1.0'']]
   \<and> year_value_pairs (fst (init sample_lib 1836 1936 C sample_path
         (snd (snd (session sample_lib 1836 2036 N sample_path Map.empty [(2000, 1)])))))
     = [(2000, 1)]
   \<and> end_year (fst (init sample_lib 1836 1936 C sample_path
         (snd (snd (session sample_lib 1836 2036 N sample_path Map.empty [(2000, 1)])))))
     < 2000
   \<and> fst (add_data_point sample_lib
         (fst (init sample_lib 1836 1936 C sample_path
            (snd (snd (session sample_lib 1836 2036 N sample_path Map.empty [(2000, 1)])))))
         (snd (snd (session sample_lib 1836 2036 N sample_path Map.empty [(2000, 1)])))
         2000 1)
     = Inl (ValueError (Year_must_be_between 1836 1936))"
  by code_simp

section \<open>The recommendation\<close>



section \<open>The failures of add_data_point\<close>








text \<open>
  The same for a range too wide for a float: the anchoring raises \<^verbatim>\<open>OverflowError\<close>.
\<close>

lemma wide_range_fails:
  "fst (session L 0 (10 ^ 400) N path fs [(5, 100)]) = [Inl OverflowError]"
proof -
  have "(2 :: int) ^ 1024 - 2 ^ 970 \<le> 10 ^ 400" by simp
  then have "\<not> int_fits_float (10 ^ 400)"
    by (simp add: int_fits_float_def float_int_limit_def)
  then show ?thesis
    by (simp add: session_def init_def add_data_point_def Let_def py_truediv_def)
qed

end
